theory Spec2Isabelle
  imports Main "HOL-Library.Sublist"
begin

section \<open>Strings of the host language\<close>

text \<open>
  A string is a list of code units; this development covers the code units
  U+0000 to U+00FF, which are the values of \<^typ>\<open>char\<close>. On that range
  \<open>String.prototype.trim\<close> removes TAB, LF, VT, FF, CR, SPACE and NO-BREAK SPACE
  from both ends, and \<open>String.prototype.toLowerCase\<close> moves A to Z and the
  capital letters U+00C0 to U+00DE (without the multiplication sign U+00D7)
  up by 32 and leaves every other code unit alone.
\<close>

definition isWhiteSpace :: "char \<Rightarrow> bool" where
  "isWhiteSpace c = (of_char c \<in> {9, 10, 11, 12, 13, 32, 160 :: nat})"

definition toLowerCaseChar :: "char \<Rightarrow> char" where
  "toLowerCaseChar c =
     (let n = (of_char c :: nat)
      in if (65 \<le> n \<and> n \<le> 90) \<or> (192 \<le> n \<and> n \<le> 222 \<and> n \<noteq> 215)
         then char_of (n + 32) else c)"

definition toLowerCase :: "string \<Rightarrow> string" where
  "toLowerCase s = map toLowerCaseChar s"

definition trim :: "string \<Rightarrow> string" where
  "trim s = rev (dropWhile isWhiteSpace (rev (dropWhile isWhiteSpace s)))"

text \<open>
  Equality of two strings up to letter case, the reading of
  "case-insensitively equals" used to state the alias rule.
\<close>

definition equalsIgnoreCase :: "string \<Rightarrow> string \<Rightarrow> bool" where
  "equalsIgnoreCase a b = (toLowerCase a = toLowerCase b)"

section \<open>languageservice/utils/schemaUrls.ts\<close>

record WorkspaceFolder =
  wf_uri :: string
  wf_name :: string

record URI =
  scheme :: string
  authority :: string
  path :: string

definition KUBERNETES_SCHEMA_URL :: string where
  "KUBERNETES_SCHEMA_URL =
     ''https://raw.githubusercontent.com/yannh/kubernetes-json-schema/master/v1.20.5-standalone-strict/all.json''"

definition JSON_SCHEMASTORE_URL :: string where
  "JSON_SCHEMASTORE_URL = ''https://www.schemastore.org/api/json/catalog.json''"

text \<open>
  \<open>checkSchemaURI\<close> imports \<open>isRelativePath\<close> and \<open>relativeToAbsolutePath\<close>
  from \<open>./paths\<close>; they are the first two arguments here.
\<close>

definition checkSchemaURI ::
  "(string \<Rightarrow> bool) \<Rightarrow> (WorkspaceFolder list \<Rightarrow> URI \<Rightarrow> string \<Rightarrow> string) \<Rightarrow>
   WorkspaceFolder list \<Rightarrow> URI \<Rightarrow> string \<Rightarrow> string" where
  "checkSchemaURI isRelativePath relativeToAbsolutePath workspaceFolders workspaceRoot uri =
     (if toLowerCase (trim uri) = ''kubernetes'' then KUBERNETES_SCHEMA_URL
      else if isRelativePath uri then relativeToAbsolutePath workspaceFolders workspaceRoot uri
      else uri)"

subsection \<open>Resolution of relative paths\<close>

text \<open>
  Modelled from the spec: \<open>relativeToAbsolutePath\<close> of
  \<open>languageservice/utils/paths.ts\<close> is missing from the sources. The spec
  says that a relative identifier is resolved "against each workspace folder in order,
  falling back to workspaceRoot, producing an absolute URI", and that with no folder
  configured "root acts as the base". The spec does not say when a folder takes an
  identifier, so that test is the argument \<open>inFolder\<close>. Resolving against a base
  appends the identifier to the base as further path segments.
\<close>

definition uriToString :: "URI \<Rightarrow> string" where
  "uriToString u = scheme u @ ''://'' @ authority u @ path u"

definition resolveAgainst :: "string \<Rightarrow> string \<Rightarrow> string" where
  "resolveAgainst base rel = base @ ''/'' @ rel"

fun relativeToAbsolutePath ::
  "(WorkspaceFolder \<Rightarrow> string \<Rightarrow> bool) \<Rightarrow> WorkspaceFolder list \<Rightarrow> URI \<Rightarrow> string \<Rightarrow> string" where
  "relativeToAbsolutePath inFolder [] workspaceRoot uri =
     resolveAgainst (uriToString workspaceRoot) uri"
| "relativeToAbsolutePath inFolder (folder # folders) workspaceRoot uri =
     (if inFolder folder uri then resolveAgainst (wf_uri folder) uri
      else relativeToAbsolutePath inFolder folders workspaceRoot uri)"

text \<open>
  An absolute URI string starts with a non-empty scheme followed by a colon. The bases
  a relative identifier may be resolved against are the folders that take it, in
  order, and then the root.
\<close>

definition isAbsoluteURI :: "string \<Rightarrow> bool" where
  "isAbsoluteURI s =
     (let sch = takeWhile (\<lambda>c. c \<noteq> CHR '':'') s in sch \<noteq> [] \<and> sch \<noteq> s)"

definition resolutionBases ::
  "(WorkspaceFolder \<Rightarrow> string \<Rightarrow> bool) \<Rightarrow> WorkspaceFolder list \<Rightarrow> URI \<Rightarrow> string \<Rightarrow> string list" where
  "resolutionBases inFolder workspaceFolders workspaceRoot uri =
     map wf_uri (filter (\<lambda>f. inFolder f uri) workspaceFolders) @ [uriToString workspaceRoot]"

section \<open>Documents and settings\<close>

record TextDocument =
  doc_uri :: string
  version :: int
  getText :: string

text \<open>
  The open documents (\<open>yamlSettings.documents\<close>) in the order they were opened:
  \<open>documents.get(uri)\<close> and \<open>documents.all()\<close>.
\<close>

type_synonym TextDocuments = "(string \<times> TextDocument) list"

definition documents_get :: "TextDocuments \<Rightarrow> string \<Rightarrow> TextDocument option" where
  "documents_get docs u = map_of docs u"

definition documents_all :: "TextDocuments \<Rightarrow> TextDocument list" where
  "documents_all docs = map snd docs"

record SettingsState =
  documents :: TextDocuments
  hierarchicalDocumentSymbolSupport :: bool
  specificValidatorPaths :: "string list"

record Position =
  line :: nat
  character :: nat

text \<open>An exception thrown by a collaborator, or the rejection of its promise.\<close>

datatype exn = Exception string

section \<open>languageserver/handlers/languageHandlers.ts\<close>

subsection \<open>documentSymbolHandler\<close>

text \<open>
  The field \<open>previousCall\<close> starts as the empty object; each of its members is
  absent (\<open>None\<close>) or set. The result type of the two symbol computations of the
  language service is the type variable \<open>'sym\<close>.
\<close>

record 'sym PreviousCall =
  pc_uri :: "string option"
  pc_time :: "int option"
  pc_request :: "'sym list option"

record 'sym LanguageHandlers =
  isTest :: bool
  previousCall :: "'sym PreviousCall"

text \<open>
  The guard of the early return. A stored result is truthy whenever it is set (an array),
  a stored time is truthy when it is set and not zero. \<open>tNow\<close> is the value of
  \<open>new Date().getTime()\<close> read by the guard. The value is the stored result
  when the guard holds.
\<close>

definition previousCallValid :: "'sym LanguageHandlers \<Rightarrow> string \<Rightarrow> int \<Rightarrow> 'sym list option" where
  "previousCallValid h u tNow =
     (case pc_request (previousCall h) of
        None \<Rightarrow> None
      | Some request \<Rightarrow>
          (case pc_time (previousCall h) of
             None \<Rightarrow> None
           | Some time \<Rightarrow>
               if \<not> isTest h \<and> time \<noteq> 0 \<and> pc_uri (previousCall h) = Some u \<and> tNow - time < 100
               then Some request else None))"

text \<open>
  The two symbol computations of the language service are the first two arguments;
  \<open>tStore\<close> is the clock value stored with a fresh result. The handler's outcome
  holds the calls it made to the language service, what it returned (\<open>None\<close> is the
  \<open>undefined\<close> returned for a document that is not open) and the state it is left in.
\<close>

datatype symbols_call = FindDocumentSymbols2 TextDocument | FindDocumentSymbols TextDocument

record 'sym symbols_outcome =
  so_calls :: "symbols_call list"
  so_result :: "'sym list option"
  so_state :: "'sym LanguageHandlers"

definition findSymbols ::
  "(TextDocument \<Rightarrow> 'sym list) \<Rightarrow> (TextDocument \<Rightarrow> 'sym list) \<Rightarrow> SettingsState \<Rightarrow>
   TextDocument \<Rightarrow> symbols_call \<times> 'sym list" where
  "findSymbols findDocumentSymbols2 findDocumentSymbols yamlSettings document =
     (if hierarchicalDocumentSymbolSupport yamlSettings
      then (FindDocumentSymbols2 document, findDocumentSymbols2 document)
      else (FindDocumentSymbols document, findDocumentSymbols document))"

definition documentSymbolHandler ::
  "(TextDocument \<Rightarrow> 'sym list) \<Rightarrow> (TextDocument \<Rightarrow> 'sym list) \<Rightarrow> SettingsState \<Rightarrow>
   int \<Rightarrow> int \<Rightarrow> string \<Rightarrow> 'sym LanguageHandlers \<Rightarrow> 'sym symbols_outcome" where
  "documentSymbolHandler findDocumentSymbols2 findDocumentSymbols yamlSettings tNow tStore u h =
     (case documents_get (documents yamlSettings) u of
        None \<Rightarrow> \<lparr>so_calls = [], so_result = None, so_state = h\<rparr>
      | Some document \<Rightarrow>
          (case previousCallValid h u tNow of
             Some request \<Rightarrow> \<lparr>so_calls = [], so_result = Some request, so_state = h\<rparr>
           | None \<Rightarrow>
               (case findSymbols findDocumentSymbols2 findDocumentSymbols yamlSettings document of
                  (call, res) \<Rightarrow>
                    \<lparr>so_calls = [call], so_result = Some res,
                     so_state = h\<lparr>previousCall :=
                        \<lparr>pc_uri = Some u, pc_time = Some tStore, pc_request = Some res\<rparr>\<rparr>\<rparr>)))"

subsection \<open>completionHandler\<close>

record 'item CompletionList =
  items :: "'item list"
  isIncomplete :: bool

text \<open>
  The handler returns the calls it made to \<open>languageService.doComplete\<close> and the
  outcome of the promise it returns. \<open>doComplete\<close> and
  \<open>isKubernetesAssociatedDocument\<close> are the first two arguments.
\<close>

datatype doComplete_call = DoComplete TextDocument Position bool

definition completionHandler ::
  "(TextDocument \<Rightarrow> Position \<Rightarrow> bool \<Rightarrow> exn + 'item CompletionList) \<Rightarrow>
   (TextDocument \<Rightarrow> string list \<Rightarrow> bool) \<Rightarrow> SettingsState \<Rightarrow> string \<Rightarrow> Position \<Rightarrow>
   doComplete_call list \<times> (exn + 'item CompletionList)" where
  "completionHandler doComplete isKubernetesAssociatedDocument yamlSettings u position =
     (let result = \<lparr>items = [], isIncomplete = False\<rparr>
      in case documents_get (documents yamlSettings) u of
           None \<Rightarrow> ([], Inr result)
         | Some textDocument \<Rightarrow>
             (let isK = isKubernetesAssociatedDocument textDocument (specificValidatorPaths yamlSettings)
              in ([DoComplete textDocument position isK], doComplete textDocument position isK)))"

subsection \<open>watchedFilesHandler\<close>

record FileEvent =
  fe_uri :: string
  fe_type :: nat

record DidChangeWatchedFilesParams =
  changes :: "FileEvent list"

text \<open>
  The state the handler works on: the state of the language service, which
  \<open>resetSchema\<close> reads and changes, and the documents handed to
  \<open>validationHandler.validate\<close> so far, in call order.
\<close>

record 's world =
  service :: 's
  validated :: "TextDocument list"

definition validate :: "TextDocument \<Rightarrow> 's world \<Rightarrow> 's world" where
  "validate document w = w\<lparr>validated := validated w @ [document]\<rparr>"

text \<open>
  The \<open>forEach\<close> over \<open>change.changes\<close>: \<open>resetSchema\<close> is called for every
  change, and \<open>hasChanges\<close> is set once a call returns true.
\<close>

fun resetSchemas ::
  "(string \<Rightarrow> 's \<Rightarrow> bool \<times> 's) \<Rightarrow> FileEvent list \<Rightarrow> bool \<Rightarrow> 's world \<Rightarrow> bool \<times> 's world" where
  "resetSchemas resetSchema [] hasChanges w = (hasChanges, w)"
| "resetSchemas resetSchema (c # cs) hasChanges w =
     (case resetSchema (fe_uri c) (service w) of
        (r, s') \<Rightarrow> resetSchemas resetSchema cs (if r then True else hasChanges) (w\<lparr>service := s'\<rparr>))"

definition watchedFilesHandler ::
  "(string \<Rightarrow> 's \<Rightarrow> bool \<times> 's) \<Rightarrow> SettingsState \<Rightarrow> DidChangeWatchedFilesParams \<Rightarrow>
   's world \<Rightarrow> 's world" where
  "watchedFilesHandler resetSchema yamlSettings change w =
     (case resetSchemas resetSchema (changes change) False w of
        (hasChanges, w') \<Rightarrow>
          if hasChanges then fold validate (documents_all (documents yamlSettings)) w' else w')"

text \<open>
  What \<open>resetSchema\<close> returns for each changed URI, in order, when the calls are made
  one after the other from the service state \<open>s\<close>.
\<close>

fun resetResults :: "(string \<Rightarrow> 's \<Rightarrow> bool \<times> 's) \<Rightarrow> FileEvent list \<Rightarrow> 's \<Rightarrow> bool list" where
  "resetResults resetSchema [] s = []"
| "resetResults resetSchema (c # cs) s =
     (case resetSchema (fe_uri c) s of (r, s') \<Rightarrow> r # resetResults resetSchema cs s')"

section \<open>languageserver/handlers/requestHandlers.ts\<close>

text \<open>
  Modelled from the spec: the enum \<open>MODIFICATION_ACTIONS\<close> and the request types
  \<open>SchemaAdditions\<close>, \<open>SchemaDeletions\<close> and \<open>SchemaDeletionsAll\<close> are declared
  in \<open>languageservice/services/yamlSchemaService.ts\<close>, which is missing from the
  sources. The spec describes "a tagged request carrying one of {add, delete,
  deleteAll} plus a target schema URI and, for add/delete, a JSON-pointer-like path
  and value/key". \<open>OtherAction n\<close> stands for a tag that is none of the three, which
  a request taken off the connection may carry.
\<close>

datatype MODIFICATION_ACTIONS = Add | Delete | DeleteAll | OtherAction nat

record 'v SchemaModification =
  action :: MODIFICATION_ACTIONS
  schema :: string
  path_of :: string
  key :: string
  content :: 'v

text \<open>
  The three operations of the language service that the handler calls. Each takes the
  request and the state of the service, and throws or returns the new state.
\<close>

record ('s, 'v) LanguageService =
  modifySchemaContent :: "'v SchemaModification \<Rightarrow> 's \<Rightarrow> exn + 's"
  deleteSchemaContent :: "'v SchemaModification \<Rightarrow> 's \<Rightarrow> exn + 's"
  deleteSchemasWhole :: "'v SchemaModification \<Rightarrow> 's \<Rightarrow> exn + 's"

datatype 'v service_call =
  ModifySchemaContent "'v SchemaModification"
| DeleteSchemaContent "'v SchemaModification"
| DeleteSchemasWhole "'v SchemaModification"

text \<open>
  The handler returns the calls it made to the language service, each with its
  argument, and the state it leaves the service in (or the exception that escaped).
\<close>

definition registerSchemaModificationNotificationHandler ::
  "('s, 'v) LanguageService \<Rightarrow> 'v SchemaModification \<Rightarrow> 's \<Rightarrow>
   'v service_call list \<times> (exn + 's)" where
  "registerSchemaModificationNotificationHandler languageService modifications s =
     (if action modifications = Add
      then ([ModifySchemaContent modifications], modifySchemaContent languageService modifications s)
      else if action modifications = Delete
      then ([DeleteSchemaContent modifications], deleteSchemaContent languageService modifications s)
      else if action modifications = DeleteAll
      then ([DeleteSchemasWhole modifications], deleteSchemasWhole languageService modifications s)
      else ([], Inr s))"

subsection \<open>The schema store behind the three operations\<close>

text \<open>
  Modelled from the spec: the schema service that implements
  \<open>modifySchemaContent\<close>, \<open>deleteSchemaContent\<close> and \<open>deleteSchemasWhole\<close> is
  missing from the sources. The spec asks for "a persistent small overlay structure
  layered on top of the fetched base schema rather than mutating the fetched document
  in place; deleteAll simply clears the overlay": an addition "merges a schema fragment
  into the properties of an existing (or newly created) in-memory schema", a deletion
  "removes a named path from it", and deleteAll "removes every in-memory-added fragment
  for uri, reverting to the last fetched state (or to empty if none was ever fetched)".

  A schema document maps a (path, key) to the fragment stored there. The store keeps
  the fetched documents and, by URI, the edits made since, oldest first.
\<close>

type_synonym 'v SchemaDocument = "(string \<times> string) \<Rightarrow> 'v option"

datatype 'v edit = AddFragment string string 'v | DeleteFragment string string

record 'v SchemaStore =
  fetched :: "string \<Rightarrow> 'v SchemaDocument option"
  overlay :: "string \<Rightarrow> 'v edit list"

fun applyEdit :: "'v SchemaDocument \<Rightarrow> 'v edit \<Rightarrow> 'v SchemaDocument" where
  "applyEdit d (AddFragment p k v) = d((p, k) \<mapsto> v)"
| "applyEdit d (DeleteFragment p k) = d((p, k) := None)"

definition fetchedState :: "'v SchemaStore \<Rightarrow> string \<Rightarrow> 'v SchemaDocument" where
  "fetchedState st u = (case fetched st u of None \<Rightarrow> Map.empty | Some d \<Rightarrow> d)"

definition storedSchema :: "'v SchemaStore \<Rightarrow> string \<Rightarrow> 'v SchemaDocument" where
  "storedSchema st u = foldl applyEdit (fetchedState st u) (overlay st u)"

definition addContent :: "'v SchemaModification \<Rightarrow> 'v SchemaStore \<Rightarrow> exn + 'v SchemaStore" where
  "addContent m st =
     Inr (st\<lparr>overlay := (overlay st)
            (schema m := overlay st (schema m) @ [AddFragment (path_of m) (key m) (content m)])\<rparr>)"

definition deleteContent :: "'v SchemaModification \<Rightarrow> 'v SchemaStore \<Rightarrow> exn + 'v SchemaStore" where
  "deleteContent m st =
     Inr (st\<lparr>overlay := (overlay st)
            (schema m := overlay st (schema m) @ [DeleteFragment (path_of m) (key m)])\<rparr>)"

definition deleteSchemas :: "'v SchemaModification \<Rightarrow> 'v SchemaStore \<Rightarrow> exn + 'v SchemaStore" where
  "deleteSchemas m st = Inr (st\<lparr>overlay := (overlay st)(schema m := [])\<rparr>)"

definition schemaService :: "('v SchemaStore, 'v) LanguageService" where
  "schemaService =
     \<lparr>modifySchemaContent = addContent,
      deleteSchemaContent = deleteContent,
      deleteSchemasWhole = deleteSchemas\<rparr>"

text \<open>Two requests handled one after the other; the second is not reached when the first throws.\<close>

definition handleTwo ::
  "('s, 'v) LanguageService \<Rightarrow> 'v SchemaModification \<Rightarrow> 'v SchemaModification \<Rightarrow> 's \<Rightarrow> exn + 's" where
  "handleTwo languageService m1 m2 s =
     (case snd (registerSchemaModificationNotificationHandler languageService m1 s) of
        Inl e \<Rightarrow> Inl e
      | Inr s' \<Rightarrow> snd (registerSchemaModificationNotificationHandler languageService m2 s'))"

section \<open>Properties of checkSchemaURI\<close>

lemma toLowerCase_alias: "toLowerCase ''kubernetes'' = ''kubernetes''"
  by code_simp

lemma whitespace_lower_fixed: "isWhiteSpace c \<Longrightarrow> toLowerCaseChar c = c"
  by (auto simp: isWhiteSpace_def toLowerCaseChar_def Let_def)

lemma alias_ends_not_whitespace:
  "\<not> isWhiteSpace (CHR ''k'')" "\<not> isWhiteSpace (CHR ''s'')"
  by (simp_all add: isWhiteSpace_def)

lemma trim_ident:
  "s \<noteq> [] \<Longrightarrow> \<not> isWhiteSpace (hd s) \<Longrightarrow> \<not> isWhiteSpace (last s) \<Longrightarrow> trim s = s"
  by (cases s) (auto simp: trim_def hd_rev dropWhile_eq_self_iff split: if_splits)

lemma lower_alias_trim:
  assumes "toLowerCase s = ''kubernetes''"
  shows "trim s = s"
proof -
  from assms have ne: "s \<noteq> []"
    by (auto simp: toLowerCase_def)
  from assms ne have "toLowerCaseChar (hd s) = CHR ''k''"
    by (cases s) (auto simp: toLowerCase_def)
  then have h: "\<not> isWhiteSpace (hd s)"
    using whitespace_lower_fixed [of "hd s"] alias_ends_not_whitespace by auto
  from assms ne have "toLowerCaseChar (last s) = CHR ''s''"
    using last_map [of s toLowerCaseChar] by (simp add: toLowerCase_def)
  then have l: "\<not> isWhiteSpace (last s)"
    using whitespace_lower_fixed [of "last s"] alias_ends_not_whitespace by auto
  from ne h l show ?thesis
    by (rule trim_ident)
qed

lemma equalsIgnoreCase_alias_trimmed:
  "equalsIgnoreCase uri ''kubernetes'' \<Longrightarrow> toLowerCase (trim uri) = ''kubernetes''"
  by (simp add: equalsIgnoreCase_def toLowerCase_alias lower_alias_trim)

text \<open>
  Claim C1. Every identifier that equals \<open>kubernetes\<close> up to letter case is resolved
  to \<open>KUBERNETES_SCHEMA_URL\<close>, whatever the workspace folders and the workspace
  root are (and whatever the two functions of \<open>./paths\<close> do).
\<close>

theorem kubernetes_alias_any_case:
  assumes "equalsIgnoreCase uri ''kubernetes''"
  shows "checkSchemaURI isRelativePath relToAbs workspaceFolders workspaceRoot uri
         = KUBERNETES_SCHEMA_URL"
  using equalsIgnoreCase_alias_trimmed [OF assms] by (simp add: checkSchemaURI_def)

theorem kubernetes_alias_any_case_witness:
  "equalsIgnoreCase ''KuberNETES'' ''kubernetes'' \<and>
   checkSchemaURI (\<lambda>u. True) (\<lambda>fs r u. ''unused'') [] \<lparr>scheme = ''file'', authority = [], path = ''/w''\<rparr> ''KuberNETES''
     = KUBERNETES_SCHEMA_URL"
proof -
  have h: "equalsIgnoreCase ''KuberNETES'' ''kubernetes''"
    by code_simp
  from kubernetes_alias_any_case [OF h] h show ?thesis
    by simp
qed

text \<open>
  Claim C6. An identifier that is not the alias (up to letter case, after trimming) and
  that \<open>isRelativePath\<close> rejects is returned as it is, whatever the workspace
  folders and the workspace root are.
\<close>

theorem checkSchemaURI_passthrough:
  assumes "\<not> equalsIgnoreCase (trim uri) ''kubernetes''" and "\<not> isRelativePath uri"
  shows "checkSchemaURI isRelativePath relToAbs workspaceFolders workspaceRoot uri = uri"
  using assms by (simp add: checkSchemaURI_def equalsIgnoreCase_def toLowerCase_alias)

theorem checkSchemaURI_passthrough_witness:
  "\<not> equalsIgnoreCase (trim ''https://example.com/s.json'') ''kubernetes'' \<and>
   \<not> (\<lambda>u. False) ''https://example.com/s.json'' \<and>
   checkSchemaURI (\<lambda>u. False) (\<lambda>fs r u. ''unused'') [] \<lparr>scheme = ''file'', authority = [], path = ''/w''\<rparr>
     ''https://example.com/s.json'' = ''https://example.com/s.json''"
proof -
  have h: "\<not> equalsIgnoreCase (trim ''https://example.com/s.json'') ''kubernetes''"
    by code_simp
  have r: "\<not> (\<lambda>u. False) ''https://example.com/s.json''"
    by simp
  from checkSchemaURI_passthrough [of "''https://example.com/s.json''" "\<lambda>u. False", OF h r] h show ?thesis
    by simp
qed

text \<open>
  Claim C10. The alias is recognised after trimming and lowercasing: every identifier
  whose trimmed, lowercased form is \<open>kubernetes\<close> is resolved to
  \<open>KUBERNETES_SCHEMA_URL\<close>. This covers every identifier that equals the alias up
  to letter case, and more: the identifier with two blanks on each side of
  \<open>Kubernetes\<close> is resolved so and does not equal the alias up to letter case.
\<close>

theorem kubernetes_alias_trimmed:
  "(toLowerCase (trim uri) = ''kubernetes'' \<longrightarrow>
      checkSchemaURI isRelativePath relToAbs workspaceFolders workspaceRoot uri = KUBERNETES_SCHEMA_URL)
   \<and> (equalsIgnoreCase uri ''kubernetes'' \<longrightarrow> toLowerCase (trim uri) = ''kubernetes'')
   \<and> toLowerCase (trim ''  Kubernetes  '') = ''kubernetes''
   \<and> \<not> equalsIgnoreCase ''  Kubernetes  '' ''kubernetes''"
proof (intro conjI impI)
  show "toLowerCase (trim ''  Kubernetes  '') = ''kubernetes''"
    by code_simp
  show "\<not> equalsIgnoreCase ''  Kubernetes  '' ''kubernetes''"
    by code_simp
qed (simp_all add: checkSchemaURI_def equalsIgnoreCase_alias_trimmed)

theorem kubernetes_alias_trimmed_witness:
  "toLowerCase (trim ''  Kubernetes  '') = ''kubernetes'' \<and>
   \<not> equalsIgnoreCase ''  Kubernetes  '' ''kubernetes'' \<and>
   checkSchemaURI (\<lambda>u. True) (\<lambda>fs r u. ''unused'') [] \<lparr>scheme = ''file'', authority = [], path = ''/w''\<rparr> ''  Kubernetes  ''
     = KUBERNETES_SCHEMA_URL \<and>
   equalsIgnoreCase ''KUBERNETES'' ''kubernetes'' \<and> toLowerCase (trim ''KUBERNETES'') = ''kubernetes''"
proof -
  have e: "equalsIgnoreCase ''KUBERNETES'' ''kubernetes''"
    by code_simp
  from kubernetes_alias_trimmed [of "''  Kubernetes  ''" "\<lambda>u. True" "\<lambda>fs r u. ''unused''" "[]" "\<lparr>scheme = ''file'', authority = [], path = ''/w''\<rparr>"]
    kubernetes_alias_trimmed [of "''KUBERNETES''"] e
  show ?thesis
    by blast
qed

lemma isAbsoluteURI_append: "isAbsoluteURI base \<Longrightarrow> isAbsoluteURI (base @ rest)"
proof -
  assume a: "isAbsoluteURI base"
  let ?P = "\<lambda>c. c \<noteq> CHR '':''"
  from a have ne: "takeWhile ?P base \<noteq> []" and neq: "takeWhile ?P base \<noteq> base"
    by (simp_all add: isAbsoluteURI_def Let_def)
  from neq have c: "CHR '':'' \<in> set base"
    by (auto simp: takeWhile_eq_all_conv)
  then have eq: "takeWhile ?P (base @ rest) = takeWhile ?P base"
    by (simp add: takeWhile_append1)
  have "takeWhile ?P base \<noteq> base @ rest"
  proof
    assume "takeWhile ?P base = base @ rest"
    with c have "CHR '':'' \<in> set (takeWhile ?P base)"
      by simp
    then show False
      by (auto dest: set_takeWhileD)
  qed
  with ne eq show ?thesis
    by (simp add: isAbsoluteURI_def Let_def)
qed

lemma relativeToAbsolutePath_hd:
  "relativeToAbsolutePath inFolder fs root u
     = resolveAgainst (hd (resolutionBases inFolder fs root u)) u"
  by (induction fs) (simp_all add: resolutionBases_def)

lemma resolutionBases_absolute:
  assumes "isAbsoluteURI (uriToString root)" and "\<forall>f \<in> set fs. isAbsoluteURI (wf_uri f)"
  shows "isAbsoluteURI (hd (resolutionBases inFolder fs root u))"
  using assms by (induction fs) (simp_all add: resolutionBases_def)

text \<open>
  Claim C5. An identifier that \<open>isRelativePath\<close> accepts and that is not the alias
  is resolved against the first workspace folder that takes it, and against the
  workspace root when no folder does; the result is an absolute URI when the folders'
  URIs and the root are. With no workspace folder the result is the root followed by
  a slash and the identifier, an absolute URI that starts with the root.
\<close>

theorem checkSchemaURI_relative:
  assumes "\<not> equalsIgnoreCase (trim uri) ''kubernetes''" and "isRelativePath uri"
    and "isAbsoluteURI (uriToString workspaceRoot)"
    and "\<forall>f \<in> set workspaceFolders. isAbsoluteURI (wf_uri f)"
  shows "checkSchemaURI isRelativePath (relativeToAbsolutePath inFolder) workspaceFolders workspaceRoot uri
           = resolveAgainst (hd (resolutionBases inFolder workspaceFolders workspaceRoot uri)) uri
         \<and> isAbsoluteURI (checkSchemaURI isRelativePath (relativeToAbsolutePath inFolder) workspaceFolders workspaceRoot uri)
         \<and> checkSchemaURI isRelativePath (relativeToAbsolutePath inFolder) [] workspaceRoot uri
             = uriToString workspaceRoot @ ''/'' @ uri
         \<and> prefix (uriToString workspaceRoot)
             (checkSchemaURI isRelativePath (relativeToAbsolutePath inFolder) [] workspaceRoot uri)
         \<and> isAbsoluteURI (checkSchemaURI isRelativePath (relativeToAbsolutePath inFolder) [] workspaceRoot uri)"
proof -
  have c: "\<And>fs. checkSchemaURI isRelativePath (relativeToAbsolutePath inFolder) fs workspaceRoot uri
             = relativeToAbsolutePath inFolder fs workspaceRoot uri"
    using assms(1,2) by (simp add: checkSchemaURI_def equalsIgnoreCase_def toLowerCase_alias)
  have a: "isAbsoluteURI (relativeToAbsolutePath inFolder workspaceFolders workspaceRoot uri)"
    unfolding relativeToAbsolutePath_hd resolveAgainst_def
    by (rule isAbsoluteURI_append) (rule resolutionBases_absolute [OF assms(3,4)])
  have r: "isAbsoluteURI (relativeToAbsolutePath inFolder [] workspaceRoot uri)"
    using assms(3) by (simp add: resolveAgainst_def isAbsoluteURI_append)
  show ?thesis
    unfolding c using a r by (simp add: relativeToAbsolutePath_hd resolveAgainst_def resolutionBases_def)
qed

theorem checkSchemaURI_relative_witness:
  "\<not> equalsIgnoreCase (trim ''schemas/a.json'') ''kubernetes'' \<and>
   isAbsoluteURI (uriToString \<lparr>scheme = ''file'', authority = [], path = ''/home/w''\<rparr>) \<and>
   isAbsoluteURI (wf_uri \<lparr>wf_uri = ''file:///home/p'', wf_name = ''p''\<rparr>) \<and>
   checkSchemaURI (\<lambda>u. True) (relativeToAbsolutePath (\<lambda>f u. wf_name f = ''p''))
     [\<lparr>wf_uri = ''file:///home/q'', wf_name = ''q''\<rparr>, \<lparr>wf_uri = ''file:///home/p'', wf_name = ''p''\<rparr>]
     \<lparr>scheme = ''file'', authority = [], path = ''/home/w''\<rparr> ''schemas/a.json''
     = ''file:///home/p/schemas/a.json'' \<and>
   checkSchemaURI (\<lambda>u. True) (relativeToAbsolutePath (\<lambda>f u. wf_name f = ''p'')) []
     \<lparr>scheme = ''file'', authority = [], path = ''/home/w''\<rparr> ''schemas/a.json''
     = ''file:///home/w/schemas/a.json''"
proof -
  have h1: "\<not> equalsIgnoreCase (trim ''schemas/a.json'') ''kubernetes''"
    by code_simp
  have h2: "(\<lambda>u. True) ''schemas/a.json''"
    by simp
  have h3: "isAbsoluteURI (uriToString \<lparr>scheme = ''file'', authority = [], path = ''/home/w''\<rparr>)"
    by (simp add: isAbsoluteURI_def uriToString_def)
  have h4: "\<forall>f \<in> set [\<lparr>wf_uri = ''file:///home/q'', wf_name = ''q''\<rparr>,
                        \<lparr>wf_uri = ''file:///home/p'', wf_name = ''p''\<rparr>]. isAbsoluteURI (wf_uri f)"
    by (simp add: isAbsoluteURI_def)
  from checkSchemaURI_relative [of "''schemas/a.json''" "\<lambda>u. True", OF h1 h2 h3 h4,
      of "\<lambda>f u. wf_name f = ''p''"] h1 h3 h4
  show ?thesis
    by (simp add: resolutionBases_def resolveAgainst_def uriToString_def)
qed

section \<open>Properties of the language handlers\<close>

lemma validated_fold_validate: "validated (fold validate ds w) = validated w @ ds"
  by (induction ds arbitrary: w) (simp_all add: validate_def)

lemma resetSchemas_flag:
  "fst (resetSchemas rs cs b w) = (b \<or> True \<in> set (resetResults rs cs (service w)))"
proof (induction cs arbitrary: b w)
  case Nil
  show ?case by simp
next
  case (Cons c cs)
  obtain r s' where r: "rs (fe_uri c) (service w) = (r, s')"
    by (cases "rs (fe_uri c) (service w)")
  show ?case
    using Cons.IH [of "if r then True else b" "w\<lparr>service := s'\<rparr>"] r by auto
qed

lemma resetSchemas_validated:
  "validated (snd (resetSchemas rs cs b w)) = validated w"
proof (induction cs arbitrary: b w)
  case Nil
  show ?case by simp
next
  case (Cons c cs)
  obtain r s' where r: "rs (fe_uri c) (service w) = (r, s')"
    by (cases "rs (fe_uri c) (service w)")
  show ?case
    using Cons.IH [of "if r then True else b" "w\<lparr>service := s'\<rparr>"] r by simp
qed

text \<open>
  Claim C2. \<open>watchedFilesHandler\<close> calls \<open>validate\<close> on every open document, in
  the order of \<open>documents.all()\<close>, when \<open>resetSchema\<close> returned true for at
  least one changed URI, and makes no call to \<open>validate\<close> when it returned false
  for all of them.
\<close>

theorem watchedFilesHandler_validates:
  "(True \<in> set (resetResults resetSchema (changes change) (service w)) \<longrightarrow>
      validated (watchedFilesHandler resetSchema yamlSettings change w)
        = validated w @ documents_all (documents yamlSettings))
   \<and> (True \<notin> set (resetResults resetSchema (changes change) (service w)) \<longrightarrow>
      validated (watchedFilesHandler resetSchema yamlSettings change w) = validated w)"
proof -
  obtain hc w' where e: "resetSchemas resetSchema (changes change) False w = (hc, w')"
    by (cases "resetSchemas resetSchema (changes change) False w")
  from e have hc: "hc = (True \<in> set (resetResults resetSchema (changes change) (service w)))"
    using resetSchemas_flag [of resetSchema "changes change" False w] by simp
  from e have v: "validated w' = validated w"
    using resetSchemas_validated [of resetSchema "changes change" False w] by simp
  show ?thesis
    using e hc v by (simp add: watchedFilesHandler_def validated_fold_validate)
qed

theorem watchedFilesHandler_validates_witness:
  "True \<in> set (resetResults (\<lambda>u s. (u \<in> set s, removeAll u s))
       (changes \<lparr>changes = [\<lparr>fe_uri = ''a.json'', fe_type = 2\<rparr>, \<lparr>fe_uri = ''b.json'', fe_type = 2\<rparr>]\<rparr>)
       (service \<lparr>service = [''b.json''], validated = []\<rparr>))
   \<and> validated (watchedFilesHandler (\<lambda>u s. (u \<in> set s, removeAll u s))
        \<lparr>documents = [(''x.yaml'', \<lparr>doc_uri = ''x.yaml'', version = 1, getText = ''k: v''\<rparr>)],
         hierarchicalDocumentSymbolSupport = False, specificValidatorPaths = []\<rparr>
        \<lparr>changes = [\<lparr>fe_uri = ''a.json'', fe_type = 2\<rparr>, \<lparr>fe_uri = ''b.json'', fe_type = 2\<rparr>]\<rparr>
        \<lparr>service = [''b.json''], validated = []\<rparr>)
       = [\<lparr>doc_uri = ''x.yaml'', version = 1, getText = ''k: v''\<rparr>]
   \<and> True \<notin> set (resetResults (\<lambda>u s. (u \<in> set s, removeAll u s))
       (changes \<lparr>changes = [\<lparr>fe_uri = ''a.json'', fe_type = 2\<rparr>]\<rparr>)
       (service \<lparr>service = [''b.json''], validated = []\<rparr>))
   \<and> validated (watchedFilesHandler (\<lambda>u s. (u \<in> set s, removeAll u s))
        \<lparr>documents = [(''x.yaml'', \<lparr>doc_uri = ''x.yaml'', version = 1, getText = ''k: v''\<rparr>)],
         hierarchicalDocumentSymbolSupport = False, specificValidatorPaths = []\<rparr>
        \<lparr>changes = [\<lparr>fe_uri = ''a.json'', fe_type = 2\<rparr>]\<rparr>
        \<lparr>service = [''b.json''], validated = []\<rparr>)
       = []"
proof -
  have h1: "True \<in> set (resetResults (\<lambda>u s. (u \<in> set s, removeAll u s))
       (changes \<lparr>changes = [\<lparr>fe_uri = ''a.json'', fe_type = 2\<rparr>, \<lparr>fe_uri = ''b.json'', fe_type = 2\<rparr>]\<rparr>)
       (service \<lparr>service = [''b.json''], validated = []\<rparr>))"
    by simp
  have h2: "True \<notin> set (resetResults (\<lambda>u s. (u \<in> set s, removeAll u s))
       (changes \<lparr>changes = [\<lparr>fe_uri = ''a.json'', fe_type = 2\<rparr>]\<rparr>)
       (service \<lparr>service = [''b.json''], validated = []\<rparr>))"
    by simp
  note t = watchedFilesHandler_validates [of "\<lambda>u s. (u \<in> set s, removeAll u s)" _
      "\<lparr>service = [''b.json''], validated = []\<rparr>"
      "\<lparr>documents = [(''x.yaml'', \<lparr>doc_uri = ''x.yaml'', version = 1, getText = ''k: v''\<rparr>)],
         hierarchicalDocumentSymbolSupport = False, specificValidatorPaths = []\<rparr>"]
  from t [of "\<lparr>changes = [\<lparr>fe_uri = ''a.json'', fe_type = 2\<rparr>, \<lparr>fe_uri = ''b.json'', fe_type = 2\<rparr>]\<rparr>"]
    t [of "\<lparr>changes = [\<lparr>fe_uri = ''a.json'', fe_type = 2\<rparr>]\<rparr>"] h1 h2
  show ?thesis
    by (simp add: documents_all_def)
qed

text \<open>
  Claim C9. For a URI that is not among the open documents, \<open>completionHandler\<close>
  resolves to the completion list with no items and \<open>isIncomplete\<close> false, and
  makes no call to \<open>doComplete\<close>.
\<close>

theorem completionHandler_not_open:
  assumes "documents_get (documents yamlSettings) u = None"
  shows "completionHandler doComplete isKubernetesAssociatedDocument yamlSettings u position
         = ([], Inr \<lparr>items = [], isIncomplete = False\<rparr>)"
  using assms by (simp add: completionHandler_def)

theorem completionHandler_not_open_witness:
  "documents_get (documents \<lparr>documents = [(''x.yaml'', \<lparr>doc_uri = ''x.yaml'', version = 1, getText = ''k: v''\<rparr>)],
         hierarchicalDocumentSymbolSupport = False, specificValidatorPaths = []\<rparr>) ''y.yaml'' = None
   \<and> completionHandler (\<lambda>d p k. Inl (Exception ''rejected'') :: exn + nat CompletionList) (\<lambda>d ps. True)
        \<lparr>documents = [(''x.yaml'', \<lparr>doc_uri = ''x.yaml'', version = 1, getText = ''k: v''\<rparr>)],
         hierarchicalDocumentSymbolSupport = False, specificValidatorPaths = []\<rparr>
        ''y.yaml'' \<lparr>line = 0, character = 0\<rparr>
       = ([], Inr \<lparr>items = [], isIncomplete = False\<rparr>)"
proof -
  have h: "documents_get (documents \<lparr>documents = [(''x.yaml'', \<lparr>doc_uri = ''x.yaml'', version = 1, getText = ''k: v''\<rparr>)],
         hierarchicalDocumentSymbolSupport = False, specificValidatorPaths = []\<rparr>) ''y.yaml'' = None"
    by (simp add: documents_get_def)
  from completionHandler_not_open [OF h] h show ?thesis
    by blast
qed

lemma previousCallValid_Some_iff:
  "previousCallValid h u tNow = Some req \<longleftrightarrow>
     (\<not> isTest h \<and> pc_request (previousCall h) = Some req \<and> pc_uri (previousCall h) = Some u
      \<and> (\<exists>t. pc_time (previousCall h) = Some t \<and> t \<noteq> 0 \<and> tNow - t < 100))"
  by (auto simp: previousCallValid_def split: option.splits)

lemma findSymbols_value:
  "findSymbols f2 f1 ys d
     = (if hierarchicalDocumentSymbolSupport ys then (FindDocumentSymbols2 d, f2 d)
        else (FindDocumentSymbols d, f1 d))"
  by (simp add: findSymbols_def)

lemma findSymbols_flag:
  "hierarchicalDocumentSymbolSupport ys' = hierarchicalDocumentSymbolSupport ys \<Longrightarrow>
   findSymbols f2 f1 ys' d = findSymbols f2 f1 ys d"
  by (simp add: findSymbols_def)

lemma documentSymbolHandler_miss:
  assumes "documents_get (documents ys) u = Some d" and "previousCallValid h u tNow = None"
  shows "documentSymbolHandler f2 f1 ys tNow tStore u h
         = \<lparr>so_calls = [fst (findSymbols f2 f1 ys d)],
            so_result = Some (snd (findSymbols f2 f1 ys d)),
            so_state = h\<lparr>previousCall := \<lparr>pc_uri = Some u, pc_time = Some tStore,
                                 pc_request = Some (snd (findSymbols f2 f1 ys d))\<rparr>\<rparr>\<rparr>"
  using assms by (simp add: documentSymbolHandler_def split: prod.split)

lemma documentSymbolHandler_hit:
  assumes "documents_get (documents ys) u = Some d" and "previousCallValid h u tNow = Some req"
  shows "documentSymbolHandler f2 f1 ys tNow tStore u h
         = \<lparr>so_calls = [], so_result = Some req, so_state = h\<rparr>"
  using assms by (simp add: documentSymbolHandler_def)

text \<open>
  Claim C4, as stated, fails. Two requests for the same URI arrive 50 ms apart and the
  text of the document changes from \<open>a: 1\<close> to \<open>b: 2\<close> between them. With a
  language service that lists the characters of the text, the second request is
  answered with the list of the first revision, not with the list of the
  current one.
\<close>

theorem documentSymbolHandler_stale_counterexample:
  "documents_get
     (documents
        \<lparr>documents = [(''file:///a.yaml'', \<lparr>doc_uri = ''file:///a.yaml'', version = 2, getText = ''b: 2''\<rparr>)],
         hierarchicalDocumentSymbolSupport = False, specificValidatorPaths = []\<rparr>)
     ''file:///a.yaml''
     = Some \<lparr>doc_uri = ''file:///a.yaml'', version = 2, getText = ''b: 2''\<rparr>
   \<and> so_result (documentSymbolHandler getText getText
        \<lparr>documents = [(''file:///a.yaml'', \<lparr>doc_uri = ''file:///a.yaml'', version = 2, getText = ''b: 2''\<rparr>)],
         hierarchicalDocumentSymbolSupport = False, specificValidatorPaths = []\<rparr>
        1050 1050 ''file:///a.yaml''
        (so_state (documentSymbolHandler getText getText
        \<lparr>documents = [(''file:///a.yaml'', \<lparr>doc_uri = ''file:///a.yaml'', version = 1, getText = ''a: 1''\<rparr>)],
         hierarchicalDocumentSymbolSupport = False, specificValidatorPaths = []\<rparr>
        1000 1000 ''file:///a.yaml''
        (\<lparr>isTest = False, previousCall = \<lparr>pc_uri = None, pc_time = None, pc_request = None\<rparr>\<rparr>))))
     = Some ''a: 1''
   \<and> so_result (documentSymbolHandler getText getText
        \<lparr>documents = [(''file:///a.yaml'', \<lparr>doc_uri = ''file:///a.yaml'', version = 2, getText = ''b: 2''\<rparr>)],
         hierarchicalDocumentSymbolSupport = False, specificValidatorPaths = []\<rparr>
        1050 1050 ''file:///a.yaml''
        (so_state (documentSymbolHandler getText getText
        \<lparr>documents = [(''file:///a.yaml'', \<lparr>doc_uri = ''file:///a.yaml'', version = 1, getText = ''a: 1''\<rparr>)],
         hierarchicalDocumentSymbolSupport = False, specificValidatorPaths = []\<rparr>
        1000 1000 ''file:///a.yaml''
        (\<lparr>isTest = False, previousCall = \<lparr>pc_uri = None, pc_time = None, pc_request = None\<rparr>\<rparr>))))
     \<noteq> Some (snd (findSymbols getText getText
          \<lparr>documents = [(''file:///a.yaml'', \<lparr>doc_uri = ''file:///a.yaml'', version = 2, getText = ''b: 2''\<rparr>)],
         hierarchicalDocumentSymbolSupport = False, specificValidatorPaths = []\<rparr>
          \<lparr>doc_uri = ''file:///a.yaml'', version = 2, getText = ''b: 2''\<rparr>))"
  by (simp add: documentSymbolHandler_def previousCallValid_def findSymbols_def documents_get_def)

text \<open>
  Claim C4, amended. For a request on an open document: when the guard of the early
  return fails, the handler makes one call to the language service
  (\<open>findDocumentSymbols2\<close> with hierarchical symbol support, \<open>findDocumentSymbols\<close>
  without), on the current revision, returns the list it computes and stores that list
  with the URI and the time; when the guard holds, it returns the stored list, makes
  no call to the language service and leaves its state alone. The guard holds exactly
  when the handler is not under test, a list is stored for the same URI, and the stored
  time is not zero and less than 100 ms before the time read. A request that follows a
  computing request for the same URI, with the same revision of that document open
  and the same hierarchical symbol support, returns the list the language service
  computes for the current revision, whatever the time between the two and whatever
  else changed in the settings.
\<close>

theorem documentSymbolHandler_window:
  assumes "documents_get (documents ys) u = Some d"
  shows "(previousCallValid h u tNow = None \<longrightarrow>
            documentSymbolHandler f2 f1 ys tNow tStore u h
              = \<lparr>so_calls = [fst (findSymbols f2 f1 ys d)],
                 so_result = Some (snd (findSymbols f2 f1 ys d)),
                 so_state = h\<lparr>previousCall := \<lparr>pc_uri = Some u, pc_time = Some tStore,
                                      pc_request = Some (snd (findSymbols f2 f1 ys d))\<rparr>\<rparr>\<rparr>)
         \<and> findSymbols f2 f1 ys d
              = (if hierarchicalDocumentSymbolSupport ys then (FindDocumentSymbols2 d, f2 d)
                 else (FindDocumentSymbols d, f1 d))
         \<and> (\<forall>req. previousCallValid h u tNow = Some req \<longrightarrow>
               documentSymbolHandler f2 f1 ys tNow tStore u h
                 = \<lparr>so_calls = [], so_result = Some req, so_state = h\<rparr>)
         \<and> (\<forall>req. previousCallValid h u tNow = Some req \<longleftrightarrow>
               (\<not> isTest h \<and> pc_request (previousCall h) = Some req \<and> pc_uri (previousCall h) = Some u
                \<and> (\<exists>t. pc_time (previousCall h) = Some t \<and> t \<noteq> 0 \<and> tNow - t < 100)))
         \<and> (previousCallValid h u tNow = None \<and> documents_get (documents ys') u = Some d
              \<and> hierarchicalDocumentSymbolSupport ys' = hierarchicalDocumentSymbolSupport ys \<longrightarrow>
               so_result (documentSymbolHandler f2 f1 ys' tNow' tStore' u
                      (so_state (documentSymbolHandler f2 f1 ys tNow tStore u h)))
                 = Some (snd (findSymbols f2 f1 ys' d)))"
proof (intro conjI impI allI)
  assume m: "previousCallValid h u tNow = None"
  show "documentSymbolHandler f2 f1 ys tNow tStore u h
              = \<lparr>so_calls = [fst (findSymbols f2 f1 ys d)],
                 so_result = Some (snd (findSymbols f2 f1 ys d)),
                 so_state = h\<lparr>previousCall := \<lparr>pc_uri = Some u, pc_time = Some tStore,
                                      pc_request = Some (snd (findSymbols f2 f1 ys d))\<rparr>\<rparr>\<rparr>"
    using assms m by (rule documentSymbolHandler_miss)
next
  show "findSymbols f2 f1 ys d
          = (if hierarchicalDocumentSymbolSupport ys then (FindDocumentSymbols2 d, f2 d)
             else (FindDocumentSymbols d, f1 d))"
    by (rule findSymbols_value)
next
  fix req assume "previousCallValid h u tNow = Some req"
  with assms show "documentSymbolHandler f2 f1 ys tNow tStore u h
                 = \<lparr>so_calls = [], so_result = Some req, so_state = h\<rparr>"
    by (rule documentSymbolHandler_hit)
next
  fix req
  show "previousCallValid h u tNow = Some req \<longleftrightarrow>
               (\<not> isTest h \<and> pc_request (previousCall h) = Some req \<and> pc_uri (previousCall h) = Some u
                \<and> (\<exists>t. pc_time (previousCall h) = Some t \<and> t \<noteq> 0 \<and> tNow - t < 100))"
    by (rule previousCallValid_Some_iff)
next
  assume a: "previousCallValid h u tNow = None \<and> documents_get (documents ys') u = Some d
              \<and> hierarchicalDocumentSymbolSupport ys' = hierarchicalDocumentSymbolSupport ys"
  then have m: "previousCallValid h u tNow = None"
    and d': "documents_get (documents ys') u = Some d"
    and f: "hierarchicalDocumentSymbolSupport ys' = hierarchicalDocumentSymbolSupport ys"
    by simp_all
  let ?res = "snd (findSymbols f2 f1 ys d)"
  let ?h1 = "h\<lparr>previousCall := \<lparr>pc_uri = Some u, pc_time = Some tStore, pc_request = Some ?res\<rparr>\<rparr>"
  have same: "snd (findSymbols f2 f1 ys' d) = ?res"
    by (simp add: findSymbols_flag [OF f])
  have first: "so_state (documentSymbolHandler f2 f1 ys tNow tStore u h) = ?h1"
    using documentSymbolHandler_miss [OF assms m] by simp
  have "so_result (documentSymbolHandler f2 f1 ys' tNow' tStore' u ?h1) = Some ?res"
  proof (cases "previousCallValid ?h1 u tNow'")
    case None
    with d' same show ?thesis
      by (simp add: documentSymbolHandler_miss)
  next
    case (Some req)
    then have "req = ?res"
      by (simp add: previousCallValid_Some_iff)
    with d' Some show ?thesis
      by (simp add: documentSymbolHandler_hit)
  qed
  with first same
  show "so_result (documentSymbolHandler f2 f1 ys' tNow' tStore' u
                      (so_state (documentSymbolHandler f2 f1 ys tNow tStore u h)))
          = Some (snd (findSymbols f2 f1 ys' d))"
    by simp
qed

theorem documentSymbolHandler_window_witness:
  "documents_get (documents
      \<lparr>documents = [(''file:///a.yaml'', \<lparr>doc_uri = ''file:///a.yaml'', version = 1, getText = ''a: 1''\<rparr>)],
         hierarchicalDocumentSymbolSupport = False, specificValidatorPaths = []\<rparr>) ''file:///a.yaml''
     = Some \<lparr>doc_uri = ''file:///a.yaml'', version = 1, getText = ''a: 1''\<rparr>
   \<and> previousCallValid
        \<lparr>isTest = False, previousCall = \<lparr>pc_uri = None, pc_time = None, pc_request = (None :: string option)\<rparr>\<rparr>
        ''file:///a.yaml'' 1000 = None
   \<and> documentSymbolHandler getText getText
        \<lparr>documents = [(''file:///a.yaml'', \<lparr>doc_uri = ''file:///a.yaml'', version = 1, getText = ''a: 1''\<rparr>)],
         hierarchicalDocumentSymbolSupport = False, specificValidatorPaths = []\<rparr>
        1000 1001 ''file:///a.yaml''
        (\<lparr>isTest = False, previousCall = \<lparr>pc_uri = None, pc_time = None, pc_request = None\<rparr>\<rparr>)
     = \<lparr>so_calls = [FindDocumentSymbols \<lparr>doc_uri = ''file:///a.yaml'', version = 1, getText = ''a: 1''\<rparr>],
        so_result = Some ''a: 1'',
        so_state = \<lparr>isTest = False, previousCall = \<lparr>pc_uri = Some ''file:///a.yaml'', pc_time = Some 1001,
                      pc_request = Some ''a: 1''\<rparr>\<rparr>\<rparr>
   \<and> so_result (documentSymbolHandler getText getText
        \<lparr>documents = [(''file:///b.yaml'', \<lparr>doc_uri = ''file:///b.yaml'', version = 4, getText = ''c: 3''\<rparr>),
                       (''file:///a.yaml'', \<lparr>doc_uri = ''file:///a.yaml'', version = 1, getText = ''a: 1''\<rparr>)],
         hierarchicalDocumentSymbolSupport = False, specificValidatorPaths = [''x'']\<rparr>
        1050 1051 ''file:///a.yaml''
        (so_state (documentSymbolHandler getText getText
        \<lparr>documents = [(''file:///a.yaml'', \<lparr>doc_uri = ''file:///a.yaml'', version = 1, getText = ''a: 1''\<rparr>)],
         hierarchicalDocumentSymbolSupport = False, specificValidatorPaths = []\<rparr>
        1000 1001 ''file:///a.yaml''
        (\<lparr>isTest = False, previousCall = \<lparr>pc_uri = None, pc_time = None, pc_request = None\<rparr>\<rparr>))))
     = Some ''a: 1''"
proof -
  have h: "documents_get (documents
      \<lparr>documents = [(''file:///a.yaml'', \<lparr>doc_uri = ''file:///a.yaml'', version = 1, getText = ''a: 1''\<rparr>)],
         hierarchicalDocumentSymbolSupport = False, specificValidatorPaths = []\<rparr>) ''file:///a.yaml''
     = Some \<lparr>doc_uri = ''file:///a.yaml'', version = 1, getText = ''a: 1''\<rparr>"
    by (simp add: documents_get_def)
  have h': "documents_get (documents
      \<lparr>documents = [(''file:///b.yaml'', \<lparr>doc_uri = ''file:///b.yaml'', version = 4, getText = ''c: 3''\<rparr>),
                       (''file:///a.yaml'', \<lparr>doc_uri = ''file:///a.yaml'', version = 1, getText = ''a: 1''\<rparr>)],
         hierarchicalDocumentSymbolSupport = False, specificValidatorPaths = [''x'']\<rparr>) ''file:///a.yaml''
     = Some \<lparr>doc_uri = ''file:///a.yaml'', version = 1, getText = ''a: 1''\<rparr>"
    by (simp add: documents_get_def)
  have m: "previousCallValid
        \<lparr>isTest = False, previousCall = \<lparr>pc_uri = None, pc_time = None, pc_request = (None :: string option)\<rparr>\<rparr>
        ''file:///a.yaml'' 1000 = None"
    by (simp add: previousCallValid_def)
  note t = documentSymbolHandler_window [OF h,
      of "\<lparr>isTest = False, previousCall = \<lparr>pc_uri = None, pc_time = None, pc_request = None\<rparr>\<rparr>"
         1000 getText getText 1001
         "\<lparr>documents = [(''file:///b.yaml'', \<lparr>doc_uri = ''file:///b.yaml'', version = 4, getText = ''c: 3''\<rparr>),
                       (''file:///a.yaml'', \<lparr>doc_uri = ''file:///a.yaml'', version = 1, getText = ''a: 1''\<rparr>)],
         hierarchicalDocumentSymbolSupport = False, specificValidatorPaths = [''x'']\<rparr>" 1050 1051]
  note first = mp [OF conjunct1 [OF t] m]
  have g1: "documentSymbolHandler getText getText
        \<lparr>documents = [(''file:///a.yaml'', \<lparr>doc_uri = ''file:///a.yaml'', version = 1, getText = ''a: 1''\<rparr>)],
         hierarchicalDocumentSymbolSupport = False, specificValidatorPaths = []\<rparr>
        1000 1001 ''file:///a.yaml''
        (\<lparr>isTest = False, previousCall = \<lparr>pc_uri = None, pc_time = None, pc_request = None\<rparr>\<rparr>)
     = \<lparr>so_calls = [FindDocumentSymbols \<lparr>doc_uri = ''file:///a.yaml'', version = 1, getText = ''a: 1''\<rparr>],
        so_result = Some ''a: 1'',
        so_state = \<lparr>isTest = False, previousCall = \<lparr>pc_uri = Some ''file:///a.yaml'', pc_time = Some 1001,
                      pc_request = Some ''a: 1''\<rparr>\<rparr>\<rparr>"
    using first by (simp add: findSymbols_def)
  have pre: "previousCallValid
        \<lparr>isTest = False, previousCall = \<lparr>pc_uri = None, pc_time = None, pc_request = (None :: string option)\<rparr>\<rparr>
        ''file:///a.yaml'' 1000 = None
      \<and> documents_get (documents
      \<lparr>documents = [(''file:///b.yaml'', \<lparr>doc_uri = ''file:///b.yaml'', version = 4, getText = ''c: 3''\<rparr>),
                       (''file:///a.yaml'', \<lparr>doc_uri = ''file:///a.yaml'', version = 1, getText = ''a: 1''\<rparr>)],
         hierarchicalDocumentSymbolSupport = False, specificValidatorPaths = [''x'']\<rparr>) ''file:///a.yaml''
     = Some \<lparr>doc_uri = ''file:///a.yaml'', version = 1, getText = ''a: 1''\<rparr>
      \<and> hierarchicalDocumentSymbolSupport
      \<lparr>documents = [(''file:///b.yaml'', \<lparr>doc_uri = ''file:///b.yaml'', version = 4, getText = ''c: 3''\<rparr>),
                       (''file:///a.yaml'', \<lparr>doc_uri = ''file:///a.yaml'', version = 1, getText = ''a: 1''\<rparr>)],
         hierarchicalDocumentSymbolSupport = False, specificValidatorPaths = [''x'']\<rparr>
        = hierarchicalDocumentSymbolSupport
      \<lparr>documents = [(''file:///a.yaml'', \<lparr>doc_uri = ''file:///a.yaml'', version = 1, getText = ''a: 1''\<rparr>)],
         hierarchicalDocumentSymbolSupport = False, specificValidatorPaths = []\<rparr>"
    using m h' by simp
  note second = mp [OF conjunct2 [OF conjunct2 [OF conjunct2 [OF conjunct2 [OF t]]]] pre]
  have g2: "so_result (documentSymbolHandler getText getText
        \<lparr>documents = [(''file:///b.yaml'', \<lparr>doc_uri = ''file:///b.yaml'', version = 4, getText = ''c: 3''\<rparr>),
                       (''file:///a.yaml'', \<lparr>doc_uri = ''file:///a.yaml'', version = 1, getText = ''a: 1''\<rparr>)],
         hierarchicalDocumentSymbolSupport = False, specificValidatorPaths = [''x'']\<rparr>
        1050 1051 ''file:///a.yaml''
        (so_state (documentSymbolHandler getText getText
        \<lparr>documents = [(''file:///a.yaml'', \<lparr>doc_uri = ''file:///a.yaml'', version = 1, getText = ''a: 1''\<rparr>)],
         hierarchicalDocumentSymbolSupport = False, specificValidatorPaths = []\<rparr>
        1000 1001 ''file:///a.yaml''
        (\<lparr>isTest = False, previousCall = \<lparr>pc_uri = None, pc_time = None, pc_request = None\<rparr>\<rparr>))))
     = Some ''a: 1''"
    using second by (simp add: findSymbols_def)
  from h m g1 g2 show ?thesis
    by (intro conjI)
qed

section \<open>Properties of the request handlers\<close>

text \<open>
  Claim C3. The handler dispatches on the action tag: an \<open>add\<close> request makes one
  call, to \<open>modifySchemaContent\<close>; a \<open>delete\<close> request makes one call, to
  \<open>deleteSchemaContent\<close>; a \<open>deleteAll\<close> request makes one call, to
  \<open>deleteSchemasWhole\<close>. Each call receives the request as it came, and its outcome
  is the outcome of the handler.
\<close>

theorem schemaModification_dispatch:
  "(action m = Add \<longrightarrow>
      registerSchemaModificationNotificationHandler languageService m s
        = ([ModifySchemaContent m], modifySchemaContent languageService m s))
   \<and> (action m = Delete \<longrightarrow>
      registerSchemaModificationNotificationHandler languageService m s
        = ([DeleteSchemaContent m], deleteSchemaContent languageService m s))
   \<and> (action m = DeleteAll \<longrightarrow>
      registerSchemaModificationNotificationHandler languageService m s
        = ([DeleteSchemasWhole m], deleteSchemasWhole languageService m s))"
  by (simp add: registerSchemaModificationNotificationHandler_def)

theorem schemaModification_dispatch_witness:
  "registerSchemaModificationNotificationHandler
     \<lparr>modifySchemaContent = (\<lambda>m s. Inr (s + 1)), deleteSchemaContent = (\<lambda>m s. Inr (s + 2)),
      deleteSchemasWhole = (\<lambda>m s. Inr (s + 3))\<rparr>
     \<lparr>action = Add, schema = ''s.json'', path_of = ''properties'', key = ''name'', content = True\<rparr> (0::nat)
     = ([ModifySchemaContent \<lparr>action = Add, schema = ''s.json'', path_of = ''properties'', key = ''name'', content = True\<rparr>], Inr 1)
   \<and> registerSchemaModificationNotificationHandler
     \<lparr>modifySchemaContent = (\<lambda>m s. Inr (s + 1)), deleteSchemaContent = (\<lambda>m s. Inr (s + 2)),
      deleteSchemasWhole = (\<lambda>m s. Inr (s + 3))\<rparr>
     \<lparr>action = Delete, schema = ''s.json'', path_of = ''properties'', key = ''name'', content = True\<rparr> (0::nat)
     = ([DeleteSchemaContent \<lparr>action = Delete, schema = ''s.json'', path_of = ''properties'', key = ''name'', content = True\<rparr>], Inr 2)
   \<and> registerSchemaModificationNotificationHandler
     \<lparr>modifySchemaContent = (\<lambda>m s. Inr (s + 1)), deleteSchemaContent = (\<lambda>m s. Inr (s + 2)),
      deleteSchemasWhole = (\<lambda>m s. Inr (s + 3))\<rparr>
     \<lparr>action = DeleteAll, schema = ''s.json'', path_of = [], key = [], content = True\<rparr> (0::nat)
     = ([DeleteSchemasWhole \<lparr>action = DeleteAll, schema = ''s.json'', path_of = [], key = [], content = True\<rparr>], Inr 3)"
proof -
  note t = schemaModification_dispatch [of _
      "\<lparr>modifySchemaContent = (\<lambda>m s. Inr (s + 1)), deleteSchemaContent = (\<lambda>m s. Inr (s + 2)),
        deleteSchemasWhole = (\<lambda>m s. Inr (s + 3))\<rparr>" "0::nat"]
  from t [of "\<lparr>action = Add, schema = ''s.json'', path_of = ''properties'', key = ''name'', content = True\<rparr>"]
    t [of "\<lparr>action = Delete, schema = ''s.json'', path_of = ''properties'', key = ''name'', content = True\<rparr>"]
    t [of "\<lparr>action = DeleteAll, schema = ''s.json'', path_of = [], key = [], content = True\<rparr>"]
  show ?thesis
    by simp
qed

text \<open>
  Claim C8. A request whose action tag is none of \<open>add\<close>, \<open>delete\<close> and
  \<open>deleteAll\<close> makes the handler call nothing and throw nothing: the state of the
  language service is the one it started from.
\<close>

theorem schemaModification_unknown_action:
  assumes "action m \<noteq> Add" and "action m \<noteq> Delete" and "action m \<noteq> DeleteAll"
  shows "registerSchemaModificationNotificationHandler languageService m s = ([], Inr s)"
  using assms by (simp add: registerSchemaModificationNotificationHandler_def)

theorem schemaModification_unknown_action_witness:
  "action \<lparr>action = OtherAction 7, schema = ''s.json'', path_of = ''p'', key = ''k'', content = True\<rparr> \<noteq> Add
   \<and> action \<lparr>action = OtherAction 7, schema = ''s.json'', path_of = ''p'', key = ''k'', content = True\<rparr> \<noteq> Delete
   \<and> action \<lparr>action = OtherAction 7, schema = ''s.json'', path_of = ''p'', key = ''k'', content = True\<rparr> \<noteq> DeleteAll
   \<and> registerSchemaModificationNotificationHandler
     \<lparr>modifySchemaContent = (\<lambda>m s. Inl (Exception ''add'')), deleteSchemaContent = (\<lambda>m s. Inl (Exception ''delete'')),
      deleteSchemasWhole = (\<lambda>m s. Inl (Exception ''deleteAll''))\<rparr>
     \<lparr>action = OtherAction 7, schema = ''s.json'', path_of = ''p'', key = ''k'', content = True\<rparr> (5::nat)
     = ([], Inr 5)"
proof -
  have h: "action \<lparr>action = OtherAction 7, schema = ''s.json'', path_of = ''p'', key = ''k'', content = True\<rparr> \<noteq> Add"
      "action \<lparr>action = OtherAction 7, schema = ''s.json'', path_of = ''p'', key = ''k'', content = True\<rparr> \<noteq> Delete"
      "action \<lparr>action = OtherAction 7, schema = ''s.json'', path_of = ''p'', key = ''k'', content = True\<rparr> \<noteq> DeleteAll"
    by simp_all
  from schemaModification_unknown_action [OF h,
      of "\<lparr>modifySchemaContent = (\<lambda>m s. Inl (Exception ''add'')), deleteSchemaContent = (\<lambda>m s. Inl (Exception ''delete'')),
      deleteSchemasWhole = (\<lambda>m s. Inl (Exception ''deleteAll''))\<rparr>" "5::nat"] h
  show ?thesis
    by simp
qed

text \<open>
  Claim C7. Over the schema store described by the spec, an \<open>add\<close> request followed by
  a \<open>deleteAll\<close> request for the same URI succeeds and leaves the overlay of that URI
  empty, the fetched documents untouched, and the stored schema of that URI equal to
  its fetched state.
\<close>

theorem add_then_deleteAll_restores:
  assumes "action a = Add" and "action d = DeleteAll" and "schema d = schema a"
  shows "handleTwo schemaService a d st = Inr (st\<lparr>overlay := (overlay st)(schema a := [])\<rparr>)
         \<and> storedSchema (st\<lparr>overlay := (overlay st)(schema a := [])\<rparr>) (schema a) = fetchedState st (schema a)
         \<and> fetched (st\<lparr>overlay := (overlay st)(schema a := [])\<rparr>) = fetched st"
proof (intro conjI)
  show "handleTwo schemaService a d st = Inr (st\<lparr>overlay := (overlay st)(schema a := [])\<rparr>)"
    using assms
    by (simp add: handleTwo_def registerSchemaModificationNotificationHandler_def schemaService_def
        addContent_def deleteSchemas_def)
  show "storedSchema (st\<lparr>overlay := (overlay st)(schema a := [])\<rparr>) (schema a) = fetchedState st (schema a)"
    by (simp add: storedSchema_def fetchedState_def)
qed simp

theorem add_then_deleteAll_restores_witness:
  "action \<lparr>action = Add, schema = ''s.json'', path_of = ''properties'', key = ''name'', content = (1::nat)\<rparr> = Add
   \<and> handleTwo schemaService
        \<lparr>action = Add, schema = ''s.json'', path_of = ''properties'', key = ''name'', content = (1::nat)\<rparr>
        \<lparr>action = DeleteAll, schema = ''s.json'', path_of = [], key = [], content = 0\<rparr>
        \<lparr>fetched = Map.empty(''s.json'' \<mapsto> Map.empty((''properties'', ''kind'') \<mapsto> 2)),
         overlay = (\<lambda>u. [])\<rparr>
      = Inr \<lparr>fetched = Map.empty(''s.json'' \<mapsto> Map.empty((''properties'', ''kind'') \<mapsto> 2)),
         overlay = (\<lambda>u. [])\<rparr>
   \<and> storedSchema
        \<lparr>fetched = Map.empty(''s.json'' \<mapsto> Map.empty((''properties'', ''kind'') \<mapsto> (2::nat))),
         overlay = (\<lambda>u. [])\<rparr> ''s.json''
      = Map.empty((''properties'', ''kind'') \<mapsto> 2)"
proof -
  have h: "action \<lparr>action = Add, schema = ''s.json'', path_of = ''properties'', key = ''name'', content = (1::nat)\<rparr> = Add"
    "action \<lparr>action = DeleteAll, schema = ''s.json'', path_of = [], key = [], content = (0::nat)\<rparr> = DeleteAll"
    "schema \<lparr>action = DeleteAll, schema = ''s.json'', path_of = [], key = [], content = (0::nat)\<rparr>
      = schema \<lparr>action = Add, schema = ''s.json'', path_of = ''properties'', key = ''name'', content = (1::nat)\<rparr>"
    by simp_all
  have o: "(\<lambda>u. [])(''s.json'' := []) = (\<lambda>u. [] :: nat edit list)"
    by auto
  from add_then_deleteAll_restores [OF h,
      of "\<lparr>fetched = Map.empty(''s.json'' \<mapsto> Map.empty((''properties'', ''kind'') \<mapsto> 2)), overlay = (\<lambda>u. [])\<rparr>"]
  show ?thesis
    by (simp add: o fetchedState_def)
qed

end
